theory Spec2Isabelle
  imports Complex_Main
begin

section \<open>TradeBricks backtest engine (backend/src/services/backtestService.ts)\<close>

text \<open>
  JavaScript numbers are modelled as real numbers: rounding, overflow to Infinity and NaN
  are not represented. Where the source divides by a quantity that can be zero, the
  division is written with its zero case spelled out, since HOL's \<open>x / 0\<close> is \<open>0\<close>
  whereas JavaScript's is non-finite.
\<close>

subsection \<open>Data model\<close>

record MarketData =
  date :: string
  openPrice :: real
  highPrice :: real
  lowPrice :: real
  closePrice :: real
  volume :: real

datatype error =
    NoData       \<comment> \<open>\<open>throw new Error('No real market data available ...')\<close>\<close>
  | TypeError    \<comment> \<open>reading \<open>.close\<close> of \<open>undefined\<close> (array index out of range)\<close>
  | NonFinite    \<comment> \<open>a quotient with divisor zero: Infinity or NaN in JavaScript\<close>
  | RangeError   \<comment> \<open>\<open>Maximum call stack size exceeded\<close>\<close>

subsection \<open>Indicator library\<close>

text \<open>\<open>Array.prototype.slice(start)\<close> with one (integer) argument.\<close>

definition jsSlice :: "int \<Rightarrow> 'a list \<Rightarrow> 'a list" where
  "jsSlice start xs =
     (let len = int (length xs);
          k = (if start < 0 then max (len + start) 0 else min start len)
      in drop (nat k) xs)"

text \<open>
  \<open>calculateMA(values, period)\<close>.  The divisor \<open>Math.min(period, values.length)\<close> is zero
  only for \<open>period = 0\<close> on a non-empty list; that quotient is reported as \<open>NonFinite\<close>.
\<close>

definition calculateMA :: "real list \<Rightarrow> int \<Rightarrow> error + real" where
  "calculateMA values period =
     (if length values = 0 then Inr 0
      else if min period (int (length values)) = 0 then Inl NonFinite
      else Inr (foldl (+) 0 (jsSlice (- period) values)
                 / real_of_int (min period (int (length values)))))"

text \<open>\<open>calculateStdDev(values)\<close>: population standard deviation.\<close>

definition calculateStdDev :: "real list \<Rightarrow> real" where
  "calculateStdDev values =
     (if length values = 0 then 0
      else let mean = foldl (+) 0 values / real (length values);
               squareDiffs = map (\<lambda>value. let diff = value - mean in diff * diff) values;
               avgSquareDiff = foldl (+) 0 squareDiffs / real (length squareDiffs)
           in sqrt avgSquareDiff)"

text \<open>
  The loop of \<open>calculateRSI\<close> over \<open>i = currentIndex - period, ..., currentIndex - 1\<close>,
  accumulating \<open>(gains, losses)\<close>.  \<open>marketData[i + 1].close\<close> raises a TypeError when
  \<open>i + 1\<close> is past the end of the array.
\<close>

fun rsiLoop :: "MarketData list \<Rightarrow> nat list \<Rightarrow> real \<times> real \<Rightarrow> error + real \<times> real" where
  "rsiLoop marketData [] (gains, losses) = Inr (gains, losses)"
| "rsiLoop marketData (i # rest) (gains, losses) =
     (if length marketData \<le> i + 1 then Inl TypeError
      else let change = closePrice (marketData ! (i + 1)) - closePrice (marketData ! i)
           in if change > 0 then rsiLoop marketData rest (gains + change, losses)
              else rsiLoop marketData rest (gains, losses + \<bar>change\<bar>))"

text \<open>
  \<open>calculateRSI(marketData, currentIndex, period)\<close>.  For \<open>period = 0\<close> the averages are
  \<open>0 / 0\<close>; for a negative period the loop body never runs.  \<open>losses / period || 0.0001\<close>
  replaces a zero average loss by \<open>0.0001\<close>.
\<close>

definition calculateRSI :: "MarketData list \<Rightarrow> nat \<Rightarrow> int \<Rightarrow> error + real" where
  "calculateRSI marketData currentIndex period =
     (if int currentIndex < period then Inr 50
      else if period = 0 then Inl NonFinite
      else case rsiLoop marketData [nat (int currentIndex - period) ..< currentIndex] (0, 0) of
             Inl e \<Rightarrow> Inl e
           | Inr (gains, losses) \<Rightarrow>
               let avgGain = gains / real_of_int period;
                   avgLoss = (if losses / real_of_int period = 0 then 0.0001
                              else losses / real_of_int period);
                   rs = avgGain / avgLoss
               in if 1 + rs = 0 then Inl NonFinite else Inr (100 - 100 / (1 + rs)))"

subsection \<open>Reference definitions for the indicator claims\<close>

text \<open>The last \<open>k\<close> elements of a list, and the arithmetic mean.\<close>

definition lastValues :: "nat \<Rightarrow> 'a list \<Rightarrow> 'a list" where
  "lastValues k xs = rev (take k (rev xs))"

definition arithmeticMean :: "real list \<Rightarrow> real" where
  "arithmeticMean xs = sum_list xs / real (length xs)"

text \<open>
  RSI as the specification words it: average gain and average loss over the \<open>p\<close> bars
  preceding \<open>atIndex\<close> (the change from each of them to the next bar), the average loss
  floored at \<open>0.0001\<close> when it is zero.
\<close>

definition closeChange :: "MarketData list \<Rightarrow> nat \<Rightarrow> real" where
  "closeChange series i = closePrice (series ! (i + 1)) - closePrice (series ! i)"

definition averageGain :: "MarketData list \<Rightarrow> nat \<Rightarrow> nat \<Rightarrow> real" where
  "averageGain series atIndex p =
     (\<Sum>i = atIndex - p ..< atIndex. max 0 (closeChange series i)) / real p"

definition averageLoss :: "MarketData list \<Rightarrow> nat \<Rightarrow> nat \<Rightarrow> real" where
  "averageLoss series atIndex p =
     (\<Sum>i = atIndex - p ..< atIndex. max 0 (- closeChange series i)) / real p"

definition flooredLoss :: "MarketData list \<Rightarrow> nat \<Rightarrow> nat \<Rightarrow> real" where
  "flooredLoss series atIndex p =
     (if averageLoss series atIndex p = 0 then 0.0001 else averageLoss series atIndex p)"

definition relativeStrength :: "MarketData list \<Rightarrow> nat \<Rightarrow> nat \<Rightarrow> real" where
  "relativeStrength series atIndex p = averageGain series atIndex p / flooredLoss series atIndex p"

subsection \<open>Block graph model\<close>

text \<open>
  A block parameter that the source reads as \<open>parseInt(p || default)\<close> or
  \<open>parseFloat(p || default)\<close>: \<open>Falsy\<close> is a missing, null, empty or zero value (the
  default is taken), \<open>NotNumeric\<close> a value whose parse is NaN, \<open>Parsed n\<close> a value that
  parses to \<open>n\<close>.
\<close>

datatype 'a param = Falsy | NotNumeric | Parsed 'a

fun parseOr :: "'a \<Rightarrow> 'a param \<Rightarrow> 'a option" where
  "parseOr d Falsy = Some d"
| "parseOr d NotNumeric = None"
| "parseOr d (Parsed n) = Some n"

text \<open>
  A block.  \<open>blockId\<close> is \<open>block.id\<close> (the empty string when absent), \<open>blockType\<close> is
  \<open>block.data?.blockType?.id\<close>, the other fields are the entries of \<open>block.data\<close> the
  engine reads.  \<open>value1\<close> and \<open>value2\<close> hold the outcome of the source's
  \<open>parseFloat\<close> on the literal operand: \<open>None\<close> when it is undefined, null or NaN.
\<close>

record Block =
  blockId :: string
  blockType :: "string option"
  purpose :: "string option"
  comparisonType :: "string option"
  value1 :: "real option"
  value2 :: "real option"
  period :: "int param"
  stdDev :: "real param"
  outputType :: "string option"
  priceType :: "string option"

record Connection =
  source :: string
  target :: string
  sourceHandle :: "string option"
  targetHandle :: "string option"

record Strategy =
  blocks :: "Block list"
  connections :: "Connection list"

text \<open>\<open>x || d\<close> on an optional string: the default replaces undefined and the empty string.\<close>

fun orDefault :: "string \<Rightarrow> string option \<Rightarrow> string" where
  "orDefault d None = d"
| "orDefault d (Some s) = (if s = [] then d else s)"

text \<open>
  The \<open>graph\<close> map of \<open>runBacktest\<close>: source id to the list of its outgoing connections,
  keys in insertion order (a JavaScript \<open>Map\<close> iterates in that order).  Each stored entry
  is the connection itself; the source copies its target and handles.
\<close>

type_synonym Graph = "(string \<times> Connection list) list"

definition graphHas :: "Graph \<Rightarrow> string \<Rightarrow> bool" where
  "graphHas graph k = (map_of graph k \<noteq> None)"

definition graphGet :: "Graph \<Rightarrow> string \<Rightarrow> Connection list" where
  "graphGet graph k = (case map_of graph k of None \<Rightarrow> [] | Some cs \<Rightarrow> cs)"

definition graphPush :: "Graph \<Rightarrow> Connection \<Rightarrow> Graph" where
  "graphPush graph connection =
     (if graphHas graph (source connection)
      then map (\<lambda>(k, cs). if k = source connection then (k, cs @ [connection]) else (k, cs)) graph
      else graph @ [(source connection, [connection])])"

definition buildGraph :: "Connection list \<Rightarrow> Graph" where
  "buildGraph cs = foldl graphPush [] cs"

definition buildBlocksById :: "Block list \<Rightarrow> (string \<rightharpoonup> Block)" where
  "buildBlocksById bs = foldl (\<lambda>m block. m(blockId block \<mapsto> block)) Map.empty bs"

subsection \<open>Evaluation engine\<close>

datatype val = BoolVal bool | NumVal real

text \<open>JavaScript truthiness of an evaluation result (\<open>if (shouldEnter)\<close>).\<close>

fun truthy :: "val \<Rightarrow> bool" where
  "truthy (BoolVal b) = b"
| "truthy (NumVal x) = (x \<noteq> 0)"

text \<open>
  The per-bar context.  The source's context also carries \<open>position\<close> and \<open>capital\<close>,
  which \<open>evaluateBlock\<close> never reads.
\<close>

record Context =
  dataWindow :: "MarketData list"
  currentData :: MarketData
  currentIndex :: nat
  marketData :: "MarketData list"

text \<open>
  The indicator cache.  Its key \<open>`${blockId}_${context.currentIndex}`\<close> is modelled as the
  pair of block id and bar index (within one bar the index is fixed, so equal key strings
  mean equal ids).  \<open>lookups\<close> and \<open>stores\<close> are ghost fields: the keys passed to
  \<open>cache.has\<close> and to \<open>cache.set\<close>, in order.  A \<open>cache.set\<close> closes each kind-specific
  computation of a block, so \<open>stores\<close> lists the computations performed.
\<close>

type_synonym cacheKey = "string \<times> nat"

record Cache =
  entries :: "cacheKey \<rightharpoonup> val"
  lookups :: "cacheKey list"
  stores :: "cacheKey list"

definition emptyCache :: Cache where
  "emptyCache = \<lparr>entries = Map.empty, lookups = [], stores = []\<rparr>"

definition cacheLookup :: "Cache \<Rightarrow> cacheKey \<Rightarrow> val option \<times> Cache" where
  "cacheLookup cache k = (entries cache k, cache\<lparr>lookups := lookups cache @ [k]\<rparr>)"

definition cacheSet :: "Cache \<Rightarrow> cacheKey \<Rightarrow> val \<Rightarrow> Cache" where
  "cacheSet cache k v = cache\<lparr>entries := (entries cache)(k \<mapsto> v), stores := stores cache @ [k]\<rparr>"

text \<open>
  A computation that may throw: \<open>Inl (e, cache)\<close> is the exception \<open>e\<close> with the cache as it
  is when \<open>e\<close> is thrown (the cache is a mutable \<open>Map\<close>, so what was stored before the
  exception stays stored), \<open>Inr\<close> is normal completion.  The recursive calls of
  \<open>evaluateBlock\<close> are passed to the loops below as an evaluator.
\<close>

type_synonym 'a attempt = "(error \<times> Cache) + 'a"

type_synonym evaluator = "Block \<Rightarrow> Cache \<Rightarrow> (val \<times> Cache) attempt"

text \<open>
  \<open>entry_condition\<close> / \<open>exit_condition\<close>: the loop over the block's outgoing connections.
  A connection whose target id is not in \<open>blocksById\<close> is skipped; the first target that
  evaluates to boolean \<open>true\<close> ends the loop.
\<close>

fun conditionLoop :: "evaluator \<Rightarrow> (string \<rightharpoonup> Block) \<Rightarrow> Connection list \<Rightarrow> Cache
                        \<Rightarrow> (val \<times> Cache) attempt" where
  "conditionLoop ev blocksById [] cache = Inr (BoolVal False, cache)"
| "conditionLoop ev blocksById (conn # rest) cache =
     (case blocksById (target conn) of
        None \<Rightarrow> conditionLoop ev blocksById rest cache
      | Some targetBlock \<Rightarrow>
          (case ev targetBlock cache of
             Inl thrown \<Rightarrow> Inl thrown
           | Inr (targetResult, cache') \<Rightarrow>
               if targetResult = BoolVal True then Inr (BoolVal True, cache')
               else conditionLoop ev blocksById rest cache'))"

text \<open>A \<open>for ... of\<close> loop whose body may throw.\<close>

fun forEach :: "('a \<Rightarrow> 's \<Rightarrow> 's attempt) \<Rightarrow> 'a list \<Rightarrow> 's \<Rightarrow> 's attempt" where
  "forEach body [] s = Inr s"
| "forEach body (x # xs) s =
     (case body x s of Inl thrown \<Rightarrow> Inl thrown | Inr s' \<Rightarrow> forEach body xs s')"

text \<open>\<open>typeof sourceResult === 'number' ? sourceResult : undefined\<close>\<close>

fun numberOrUndefined :: "val \<Rightarrow> real option" where
  "numberOrUndefined (NumVal x) = Some x"
| "numberOrUndefined (BoolVal b) = None"

text \<open>
  \<open>comparison\<close>: the body of the nested loops over \<open>graph.entries()\<close>, on the state
  \<open>((value1, value2), cache)\<close>.
\<close>

definition inputStep :: "evaluator \<Rightarrow> (string \<rightharpoonup> Block) \<Rightarrow> string \<Rightarrow> string \<Rightarrow> Connection
                          \<Rightarrow> (real option \<times> real option) \<times> Cache
                          \<Rightarrow> ((real option \<times> real option) \<times> Cache) attempt" where
  "inputStep ev blocksById bid sourceId conn st =
     (if target conn = bid then
        (case blocksById sourceId of
           None \<Rightarrow> Inr st
         | Some sourceBlock \<Rightarrow>
             (case ev sourceBlock (snd st) of
                Inl thrown \<Rightarrow> Inl thrown
              | Inr (sourceResult, cache') \<Rightarrow>
                  if targetHandle conn = Some ''input1''
                  then Inr ((numberOrUndefined sourceResult, snd (fst st)), cache')
                  else if targetHandle conn = Some ''input2''
                  then Inr ((fst (fst st), numberOrUndefined sourceResult), cache')
                  else Inr (fst st, cache')))
      else Inr st)"

definition scanInputs :: "evaluator \<Rightarrow> (string \<rightharpoonup> Block) \<Rightarrow> Graph \<Rightarrow> string
                           \<Rightarrow> (real option \<times> real option) \<times> Cache
                           \<Rightarrow> ((real option \<times> real option) \<times> Cache) attempt" where
  "scanInputs ev blocksById graph bid st =
     forEach (\<lambda>(sourceId, conns). forEach (inputStep ev blocksById bid sourceId) conns) graph st"

definition compareValues :: "string \<Rightarrow> real \<Rightarrow> real \<Rightarrow> bool" where
  "compareValues ct v1 v2 =
     (if ct = ''greater_than'' then v1 > v2
      else if ct = ''less_than'' then v1 < v2
      else if ct = ''equal_to'' then \<bar>v1 - v2\<bar> < 0.00001
      else if ct = ''greater_than_or_equal'' then v1 \<ge> v2
      else if ct = ''less_than_or_equal'' then v1 \<le> v2
      else False)"

definition evalComparison :: "evaluator \<Rightarrow> Block \<Rightarrow> (string \<rightharpoonup> Block) \<Rightarrow> Graph \<Rightarrow> Cache
                               \<Rightarrow> (val \<times> Cache) attempt" where
  "evalComparison ev block blocksById graph cache =
     (let ct = orDefault ''greater_than'' (comparisonType block);
          direct = ((value1 block, value2 block), cache)
      in case (if value1 block \<noteq> None \<and> value2 block \<noteq> None then Inr direct
               else scanInputs ev blocksById graph (blockId block) direct) of
           Inl thrown \<Rightarrow> Inl thrown
         | Inr ((Some v1, Some v2), cache') \<Rightarrow> Inr (BoolVal (compareValues ct v1 v2), cache')
         | Inr (_, cache') \<Rightarrow> Inr (BoolVal False, cache'))"

text \<open>
  The indicator and price cases.  The guard \<open>period <= 0\<close> precedes every call of
  \<open>calculateMA\<close>, so its \<open>NonFinite\<close> outcome does not arise here (lemma
  \<open>calculateMA_pos\<close>); the branch is written out to keep the functions total.  The
  TypeError of \<open>calculateRSI\<close> is caught by the \<open>catch\<close> of the same \<open>evaluateBlock\<close> frame,
  which yields \<open>50\<close> for an \<open>rsi\<close> block; \<open>evalRSI\<close> gives that value directly.
\<close>

definition evalMovingAverage :: "Block \<Rightarrow> Context \<Rightarrow> val" where
  "evalMovingAverage block ctx =
     (case parseOr 20 (period block) of
        None \<Rightarrow> NumVal (closePrice (currentData ctx))
      | Some maPeriod \<Rightarrow>
          if maPeriod \<le> 0 then NumVal (closePrice (currentData ctx))
          else (case calculateMA (map closePrice (dataWindow ctx)) maPeriod of
                  Inr v \<Rightarrow> NumVal v
                | Inl e \<Rightarrow> NumVal (closePrice (currentData ctx))))"

definition evalRSI :: "Block \<Rightarrow> Context \<Rightarrow> val" where
  "evalRSI block ctx =
     (case parseOr 14 (period block) of
        None \<Rightarrow> NumVal 50
      | Some rsiPeriod \<Rightarrow>
          if rsiPeriod \<le> 0 then NumVal 50
          else (case calculateRSI (marketData ctx) (currentIndex ctx) rsiPeriod of
                  Inr v \<Rightarrow> NumVal v
                | Inl e \<Rightarrow> NumVal 50))"

definition evalBollingerBands :: "Block \<Rightarrow> Context \<Rightarrow> val" where
  "evalBollingerBands block ctx =
     (case (parseOr 20 (period block), parseOr 2 (stdDev block)) of
        (Some bbPeriod, Some stdDevMultiplier) \<Rightarrow>
          if bbPeriod \<le> 0 then NumVal (closePrice (currentData ctx))
          else
            let prices = map closePrice (dataWindow ctx) in
            (case calculateMA prices bbPeriod of
               Inl e \<Rightarrow> NumVal (closePrice (currentData ctx))
             | Inr ma \<Rightarrow>
                 if int (length prices) \<ge> bbPeriod then
                   let recentPrices = jsSlice (- bbPeriod) prices;
                       sd = calculateStdDev recentPrices;
                       bandType = orDefault ''middle'' (outputType block)
                   in if bandType = ''upper'' then NumVal (ma + stdDevMultiplier * sd)
                      else if bandType = ''lower'' then NumVal (ma - stdDevMultiplier * sd)
                      else NumVal ma
                 else NumVal (closePrice (currentData ctx)))
      | _ \<Rightarrow> NumVal (closePrice (currentData ctx)))"

definition evalPrice :: "Block \<Rightarrow> Context \<Rightarrow> val" where
  "evalPrice block ctx =
     (let pt = orDefault ''close'' (priceType block)
      in if pt = ''open'' then NumVal (openPrice (currentData ctx))
         else if pt = ''high'' then NumVal (highPrice (currentData ctx))
         else if pt = ''low'' then NumVal (lowPrice (currentData ctx))
         else NumVal (closePrice (currentData ctx)))"

text \<open>The \<open>switch (blockType)\<close> of \<open>evaluateBlock\<close>, the body of its \<open>try\<close>.\<close>

definition evalKind :: "evaluator \<Rightarrow> string \<Rightarrow> Block \<Rightarrow> Context \<Rightarrow> (string \<rightharpoonup> Block) \<Rightarrow> Graph
                         \<Rightarrow> Cache \<Rightarrow> (val \<times> Cache) attempt" where
  "evalKind ev bt block ctx blocksById graph cache =
     (if bt = ''entry_condition'' \<or> bt = ''exit_condition'' then
        (if graphHas graph (blockId block)
         then conditionLoop ev blocksById (graphGet graph (blockId block)) cache
         else Inr (BoolVal False, cache))
      else if bt = ''comparison'' then evalComparison ev block blocksById graph cache
      else if bt = ''moving_average'' then Inr (evalMovingAverage block ctx, cache)
      else if bt = ''rsi'' then Inr (evalRSI block ctx, cache)
      else if bt = ''bollinger_bands'' then Inr (evalBollingerBands block ctx, cache)
      else if bt = ''price'' then Inr (evalPrice block ctx, cache)
      else Inr (BoolVal False, cache))"

text \<open>The \<open>catch\<close> of \<open>evaluateBlock\<close>: the default for the block type.\<close>

definition fallbackValue :: "string \<Rightarrow> Context \<Rightarrow> val" where
  "fallbackValue bt ctx =
     (if bt = ''moving_average'' \<or> bt = ''bollinger_bands'' \<or> bt = ''price''
      then NumVal (closePrice (currentData ctx))
      else if bt = ''rsi'' then NumVal 50
      else BoolVal False)"

text \<open>
  \<open>evaluateBlock(block, context, blocksById, graph, cache)\<close>.  The recursion follows the
  connections with no bound of its own; what ends it on a cycle is the call stack of the
  engine.  The first argument is the number of \<open>evaluateBlock\<close> frames the call stack still
  has room for: a call with no room left throws the RangeError, which reaches the \<open>try\<close> of
  the frame that made the call.  The \<open>catch\<close> of that frame replaces the result by the
  fallback of its block type, and the frame goes on to \<open>cache.set\<close> and returns.  A block
  without id or block type yields \<open>false\<close> before the cache is consulted.
\<close>

primrec evaluateBlock :: "nat \<Rightarrow> Block \<Rightarrow> Context \<Rightarrow> (string \<rightharpoonup> Block) \<Rightarrow> Graph \<Rightarrow> Cache
                            \<Rightarrow> (val \<times> Cache) attempt" where
  "evaluateBlock 0 block ctx blocksById graph cache = Inl (RangeError, cache)"
| "evaluateBlock (Suc stack) block ctx blocksById graph cache =
     (if blockId block = [] then Inr (BoolVal False, cache)
      else case blockType block of
        None \<Rightarrow> Inr (BoolVal False, cache)
      | Some bt \<Rightarrow>
          if bt = [] then Inr (BoolVal False, cache)
          else
            (case cacheLookup cache (blockId block, currentIndex ctx) of
               (Some cached, cache1) \<Rightarrow> Inr (cached, cache1)
             | (None, cache1) \<Rightarrow>
                 (case evalKind (\<lambda>b c. evaluateBlock stack b ctx blocksById graph c)
                         bt block ctx blocksById graph cache1 of
                    Inr (result, cache2) \<Rightarrow>
                      Inr (result, cacheSet cache2 (blockId block, currentIndex ctx) result)
                  | Inl (e, cache2) \<Rightarrow>
                      Inr (fallbackValue bt ctx,
                           cacheSet cache2 (blockId block, currentIndex ctx)
                             (fallbackValue bt ctx)))))"

subsection \<open>Graph resolver\<close>

definition isTerminal :: "Graph \<Rightarrow> string \<Rightarrow> bool" where
  "isTerminal graph bid = (\<not> graphHas graph bid \<or> length (graphGet graph bid) = 0)"

definition isEntryBlock :: "Graph \<Rightarrow> Block \<Rightarrow> bool" where
  "isEntryBlock graph block =
     (if blockType block = Some ''entry_condition'' then True
      else if blockType block = Some ''comparison''
      then isTerminal graph (blockId block) \<and> purpose block \<noteq> Some ''exit''
      else False)"

definition isExitBlock :: "Graph \<Rightarrow> Block list \<Rightarrow> Block \<Rightarrow> bool" where
  "isExitBlock graph entryBlocks block =
     (if blockType block = Some ''exit_condition'' then True
      else if blockType block = Some ''comparison''
      then isTerminal graph (blockId block) \<and> purpose block \<noteq> Some ''entry''
           \<and> \<not> list_ex (\<lambda>eb. blockId eb = blockId block) entryBlocks
      else False)"

definition isIndicatorOrPrice :: "Block \<Rightarrow> bool" where
  "isIndicatorOrPrice block =
     (blockType block = Some ''moving_average'' \<or> blockType block = Some ''price''
      \<or> blockType block = Some ''rsi'' \<or> blockType block = Some ''bollinger_bands'')"

definition dummyEntryBlock :: Block where
  "dummyEntryBlock =
     \<lparr>blockId = ''default-entry'', blockType = Some ''price'', purpose = None,
      comparisonType = None, value1 = None, value2 = None, period = Falsy, stdDev = Falsy,
      outputType = None, priceType = None\<rparr>"

text \<open>
  The entry candidates (the filter and its two fallbacks), together with the lines the
  fallbacks write with \<open>console.log\<close>.
\<close>

definition resolveEntryBlocks :: "Graph \<Rightarrow> Block list \<Rightarrow> Block list \<times> string list" where
  "resolveEntryBlocks graph bs =
     (let entryBlocks = filter (isEntryBlock graph) bs in
      if length entryBlocks \<noteq> 0 then (entryBlocks, [])
      else
        let log1 = [''No explicit entry blocks found, looking for indicators or price blocks to use'']
        in case find isIndicatorOrPrice bs of
             Some block \<Rightarrow>
               ([block], log1 @ [''Using '' @ orDefault ''undefined'' (blockType block)
                       @ '' block as entry condition''])
           | None \<Rightarrow>
               ([dummyEntryBlock],
                log1 @ [''No suitable entry blocks found, will use default entry strategy'']))"

definition resolveExitBlocks :: "Graph \<Rightarrow> Block list \<Rightarrow> Block list" where
  "resolveExitBlocks graph bs = filter (isExitBlock graph (filter (isEntryBlock graph) bs)) bs"

subsection \<open>Backtest simulator\<close>

datatype PriceField = Open | High | Low | Close

fun priceOf :: "PriceField \<Rightarrow> MarketData \<Rightarrow> real" where
  "priceOf Open d = openPrice d"
| "priceOf High d = highPrice d"
| "priceOf Low d = lowPrice d"
| "priceOf Close d = closePrice d"

datatype Action = BUY | SELL

record Trade =
  tradeDate :: string
  action :: Action
  price :: real

text \<open>The mutable locals of \<open>runBacktest\<close>: \<open>capital\<close>, \<open>position\<close>, \<open>buyPrice\<close>, \<open>trades\<close>.\<close>

record Portfolio =
  capital :: real
  position :: real
  buyPrice :: real
  trades :: "Trade list"

record BacktestOptions =
  initialCapital :: real
  usePriceType :: "PriceField option"

record BacktestResult =
  resultTrades :: "Trade list"
  finalCapital :: real
  totalReturn :: real
  usingSimulatedData :: bool

text \<open>
  The buy and the sell assignments.  \<open>capital / tradePrice\<close> with a zero trade price is
  non-finite in JavaScript and is reported as \<open>NonFinite\<close>.
\<close>

definition buy :: "MarketData \<Rightarrow> real \<Rightarrow> Portfolio \<Rightarrow> error + Portfolio" where
  "buy bar tradePrice s =
     (if tradePrice = 0 then Inl NonFinite
      else Inr \<lparr>capital = 0, position = capital s / tradePrice, buyPrice = tradePrice,
                trades = trades s @ [\<lparr>tradeDate = date bar, action = BUY, price = tradePrice\<rparr>]\<rparr>)"

definition sell :: "MarketData \<Rightarrow> real \<Rightarrow> Portfolio \<Rightarrow> Portfolio" where
  "sell bar tradePrice s =
     s\<lparr>capital := position s * tradePrice, position := 0,
       trades := trades s @ [\<lparr>tradeDate = date bar, action = SELL, price = tradePrice\<rparr>]\<rparr>"

text \<open>
  The loop over the entry blocks: the first truthy evaluation buys and ends the loop.  These
  calls of \<open>evaluateBlock\<close> are in no \<open>try\<close>: an exception of theirs leaves \<open>runBacktest\<close>.
\<close>

fun entryLoop :: "nat \<Rightarrow> Context \<Rightarrow> (string \<rightharpoonup> Block) \<Rightarrow> Graph \<Rightarrow> PriceField \<Rightarrow> Block list
                    \<Rightarrow> Cache \<Rightarrow> Portfolio \<Rightarrow> error + Portfolio" where
  "entryLoop stack ctx blocksById graph pf [] cache s = Inr s"
| "entryLoop stack ctx blocksById graph pf (entryBlock # rest) cache s =
     (case evaluateBlock stack entryBlock ctx blocksById graph cache of
        Inl (e, cache') \<Rightarrow> Inl e
      | Inr (shouldEnter, cache') \<Rightarrow>
          if truthy shouldEnter
          then buy (currentData ctx) (priceOf pf (currentData ctx)) s
          else entryLoop stack ctx blocksById graph pf rest cache' s)"

text \<open>The loop over the exit blocks: the first truthy evaluation sells and ends the loop.\<close>

fun exitLoop :: "nat \<Rightarrow> Context \<Rightarrow> (string \<rightharpoonup> Block) \<Rightarrow> Graph \<Rightarrow> PriceField \<Rightarrow> Block list
                   \<Rightarrow> Cache \<Rightarrow> Portfolio \<Rightarrow> error + Portfolio" where
  "exitLoop stack ctx blocksById graph pf [] cache s = Inr s"
| "exitLoop stack ctx blocksById graph pf (exitBlock # rest) cache s =
     (case evaluateBlock stack exitBlock ctx blocksById graph cache of
        Inl (e, cache') \<Rightarrow> Inl e
      | Inr (shouldExit, cache') \<Rightarrow>
          if truthy shouldExit
          then Inr (sell (currentData ctx) (priceOf pf (currentData ctx)) s)
          else exitLoop stack ctx blocksById graph pf rest cache' s)"

text \<open>
  The body of the loop over the bars, for bar index \<open>i\<close> (only used with
  \<open>i < length md\<close>).  The cache is cleared at the start of every bar.
\<close>

definition stepBar :: "nat \<Rightarrow> MarketData list \<Rightarrow> PriceField \<Rightarrow> (string \<rightharpoonup> Block) \<Rightarrow> Graph
                        \<Rightarrow> Block list \<Rightarrow> Block list \<Rightarrow> nat \<Rightarrow> Portfolio
                        \<Rightarrow> error + Portfolio" where
  "stepBar stack md pf blocksById graph entryBlocks exitBlocks i s =
     (let bar = md ! i;
          ctx = \<lparr>dataWindow = take (i + 1) md, currentData = bar, currentIndex = i,
                 marketData = md\<rparr>
      in if position s = 0
         then entryLoop stack ctx blocksById graph pf entryBlocks emptyCache s
         else if position s > 0 then
           (if length exitBlocks > 0
            then exitLoop stack ctx blocksById graph pf exitBlocks emptyCache s
            else if priceOf pf bar < buyPrice s * 0.95 \<or> priceOf pf bar > buyPrice s * 1.2
            then Inr (sell bar (priceOf pf bar) s)
            else Inr s)
         else Inr s)"

text \<open>
  The portfolio after the first \<open>k\<close> iterations of \<open>for (let i = 0; i < marketData.length; i++)\<close>;
  the whole loop is \<open>runBars\<close> at \<open>k = length md\<close>.
\<close>

primrec runBars :: "nat \<Rightarrow> MarketData list \<Rightarrow> PriceField \<Rightarrow> (string \<rightharpoonup> Block) \<Rightarrow> Graph
                      \<Rightarrow> Block list \<Rightarrow> Block list \<Rightarrow> nat \<Rightarrow> Portfolio
                      \<Rightarrow> error + Portfolio" where
  "runBars stack md pf blocksById graph entryBlocks exitBlocks 0 s = Inr s"
| "runBars stack md pf blocksById graph entryBlocks exitBlocks (Suc k) s =
     (case runBars stack md pf blocksById graph entryBlocks exitBlocks k s of
        Inl e \<Rightarrow> Inl e
      | Inr s' \<Rightarrow> stepBar stack md pf blocksById graph entryBlocks exitBlocks k s')"

text \<open>The final exit after the loop: a remaining position is sold at the last bar's price.\<close>

definition finalExit :: "MarketData list \<Rightarrow> PriceField \<Rightarrow> Portfolio \<Rightarrow> Portfolio" where
  "finalExit md pf s =
     (if position s > 0
      then let lastDay = md ! (length md - 1) in sell lastDay (priceOf pf lastDay) s
      else s)"

definition initialPortfolio :: "BacktestOptions \<Rightarrow> Portfolio" where
  "initialPortfolio opts = \<lparr>capital = initialCapital opts, position = 0, buyPrice = 0, trades = []\<rparr>"

definition priceField :: "BacktestOptions \<Rightarrow> PriceField" where
  "priceField opts = (case usePriceType opts of None \<Rightarrow> Close | Some pf \<Rightarrow> pf)"

text \<open>
  \<open>runBacktest\<close> up to and including the final exit, on the fetched series \<open>md\<close>: the
  portfolio from which the result is built.  The first argument is the room of the call
  stack, as for \<open>evaluateBlock\<close>.  Fetching the series (whose failure \<open>runBacktest\<close> rethrows)
  and \<open>validateMarketData\<close> (which only logs) are outside the model; the \<open>reverseGraph\<close> map
  is built by the source and never read.
\<close>

definition finalPortfolio :: "nat \<Rightarrow> Strategy \<Rightarrow> BacktestOptions \<Rightarrow> MarketData list
                               \<Rightarrow> error + Portfolio" where
  "finalPortfolio stack strategy opts md =
     (if length md = 0 then Inl NoData
      else
        let blocksById = buildBlocksById (blocks strategy);
            graph = buildGraph (connections strategy);
            entryBlocks = fst (resolveEntryBlocks graph (blocks strategy));
            exitBlocks = resolveExitBlocks graph (blocks strategy)
        in case runBars stack md (priceField opts) blocksById graph entryBlocks exitBlocks
                  (length md) (initialPortfolio opts) of
             Inl e \<Rightarrow> Inl e
           | Inr s \<Rightarrow> Inr (finalExit md (priceField opts) s))"

text \<open>
  \<open>runBacktest\<close>: the returned object has the four fields of \<open>BacktestResult\<close>.  The total
  return divides by the initial capital.
\<close>

definition runBacktest :: "nat \<Rightarrow> Strategy \<Rightarrow> BacktestOptions \<Rightarrow> MarketData list
                            \<Rightarrow> error + BacktestResult" where
  "runBacktest stack strategy opts md =
     (case finalPortfolio stack strategy opts md of
        Inl e \<Rightarrow> Inl e
      | Inr s \<Rightarrow>
          if initialCapital opts = 0 then Inl NonFinite
          else Inr \<lparr>resultTrades = trades s, finalCapital = capital s,
                    totalReturn = (capital s - initialCapital opts) / initialCapital opts * 100,
                    usingSimulatedData = False\<rparr>)"

text \<open>
  The \<open>warnings\<close> field that the HTTP controller (backtestController.ts) adds to its
  response next to the result.
\<close>

definition responseWarnings :: "BacktestResult \<Rightarrow> string list" where
  "responseWarnings result =
     (if usingSimulatedData result
      then [''Simulated data was used for this backtest. Results may not reflect real market conditions.'']
      else [])"

subsection \<open>Reference definitions for the ledger claims\<close>

text \<open>
  Buy trades minus Sell trades of a ledger, and the property that this difference is 0 or
  1 at every prefix of the ledger.
\<close>

definition netPosition :: "Trade list \<Rightarrow> int" where
  "netPosition ts =
     int (length (filter (\<lambda>t. action t = BUY) ts)) - int (length (filter (\<lambda>t. action t = SELL) ts))"

definition ledgerBalanced :: "Trade list \<Rightarrow> bool" where
  "ledgerBalanced ts =
     list_all (\<lambda>k. netPosition (take k ts) = 0 \<or> netPosition (take k ts) = 1) [0 ..< Suc (length ts)]"

text \<open>The trades of a ledger that are dated on a given bar.\<close>

definition tradesOnBar :: "MarketData \<Rightarrow> Trade list \<Rightarrow> Trade list" where
  "tradesOnBar bar ts = filter (\<lambda>t. tradeDate t = date bar) ts"

text \<open>The invariant of the bar loop under positive capital and positive prices.\<close>

definition singlePosition :: "Portfolio \<Rightarrow> bool" where
  "singlePosition s \<longleftrightarrow>
     ((0 < capital s \<and> position s = 0) \<or> (capital s = 0 \<and> 0 < position s))
     \<and> ledgerBalanced (trades s)
     \<and> netPosition (trades s) = (if 0 < position s then 1 else 0)"

subsection \<open>Evaluation dependencies\<close>



subsection \<open>Reference definitions for the memoization claim\<close>





subsection \<open>Example inputs\<close>

definition exampleBar :: "string \<Rightarrow> real \<Rightarrow> MarketData" where
  "exampleBar d c = \<lparr>date = d, openPrice = c, highPrice = c, lowPrice = c, closePrice = c, volume = 0\<rparr>"

definition exampleSeries :: "MarketData list" where
  "exampleSeries = [exampleBar ''2024-01-01'' 100, exampleBar ''2024-01-02'' 90, exampleBar ''2024-01-03'' 120]"

text \<open>A block with the given id and type and no other data.\<close>

definition plainBlock :: "string \<Rightarrow> string \<Rightarrow> Block" where
  "plainBlock bid bt =
     \<lparr>blockId = bid, blockType = Some bt, purpose = None, comparisonType = None,
      value1 = None, value2 = None, period = Falsy, stdDev = Falsy, outputType = None,
      priceType = None\<rparr>"

definition exampleComparisons :: "Block list" where
  "exampleComparisons =
     [plainBlock ''c1'' ''comparison'',
      (plainBlock ''c2'' ''comparison'')\<lparr>purpose := Some ''exit''\<rparr>]"

definition emptyStrategy :: Strategy where
  "emptyStrategy = \<lparr>blocks = [], connections = []\<rparr>"

definition exampleOptions :: BacktestOptions where
  "exampleOptions = \<lparr>initialCapital = 10000, usePriceType = None\<rparr>"

text \<open>
  A moving-average crossover: two moving averages feed the two inputs of a comparison.
  The third connection comes from a block id that does not exist.
\<close>

definition fastMA :: Block where
  "fastMA = (plainBlock ''fast'' ''moving_average'')\<lparr>period := Parsed 1\<rparr>"

definition slowMA :: Block where
  "slowMA = (plainBlock ''slow'' ''moving_average'')\<lparr>period := Parsed 2\<rparr>"

definition crossBlock :: Block where
  "crossBlock = plainBlock ''cross'' ''comparison''"

definition crossoverStrategy :: Strategy where
  "crossoverStrategy =
     \<lparr>blocks = [fastMA, slowMA, crossBlock],
      connections =
        [\<lparr>source = ''fast'', target = ''cross'', sourceHandle = None, targetHandle = Some ''input1''\<rparr>,
         \<lparr>source = ''slow'', target = ''cross'', sourceHandle = None, targetHandle = Some ''input2''\<rparr>,
         \<lparr>source = ''ghost'', target = ''cross'', sourceHandle = None, targetHandle = Some ''input1''\<rparr>]\<rparr>"





text \<open>A one-bar series whose price is negative.\<close>

definition negativeSeries :: "MarketData list" where
  "negativeSeries = [exampleBar ''2024-01-01'' (- 5)]"

text \<open>
  The run of the empty strategy over the example series: the portfolio after the three
  bars, and after the final exit.
\<close>

definition exampleOpenPortfolio :: Portfolio where
  "exampleOpenPortfolio =
     \<lparr>capital = 0, position = 75, buyPrice = 120,
      trades = [\<lparr>tradeDate = ''2024-01-01'', action = BUY, price = 100\<rparr>,
                \<lparr>tradeDate = ''2024-01-02'', action = SELL, price = 90\<rparr>,
                \<lparr>tradeDate = ''2024-01-03'', action = BUY, price = 120\<rparr>]\<rparr>"

definition exampleFinalPortfolio :: Portfolio where
  "exampleFinalPortfolio =
     \<lparr>capital = 9000, position = 0, buyPrice = 120,
      trades = [\<lparr>tradeDate = ''2024-01-01'', action = BUY, price = 100\<rparr>,
                \<lparr>tradeDate = ''2024-01-02'', action = SELL, price = 90\<rparr>,
                \<lparr>tradeDate = ''2024-01-03'', action = BUY, price = 120\<rparr>,
                \<lparr>tradeDate = ''2024-01-03'', action = SELL, price = 120\<rparr>]\<rparr>"

text \<open>The result of the crossover strategy, and of the empty strategy, on the example series.\<close>

definition crossoverResult :: BacktestResult where
  "crossoverResult =
     \<lparr>resultTrades = [\<lparr>tradeDate = ''2024-01-03'', action = BUY, price = 120\<rparr>,
                      \<lparr>tradeDate = ''2024-01-03'', action = SELL, price = 120\<rparr>],
      finalCapital = 10000, totalReturn = 0, usingSimulatedData = False\<rparr>"

definition emptyStrategyResult :: BacktestResult where
  "emptyStrategyResult =
     \<lparr>resultTrades = trades exampleFinalPortfolio, finalCapital = 9000, totalReturn = - 10,
      usingSimulatedData = False\<rparr>"






section \<open>Verification\<close>

subsection \<open>Moving average\<close>

lemma foldl_plus_sum_list: "foldl (+) a xs = a + sum_list (xs :: real list)"
  by (induction xs arbitrary: a) simp_all

lemma jsSlice_neg_lastValues:
  assumes "1 \<le> p"
  shows "jsSlice (- p) xs = lastValues (min (nat p) (length xs)) xs"
proof -
  let ?n = "length xs" and ?k = "min (nat p) (length xs)"
  have k: "nat (max (int ?n + - p) 0) = ?n - ?k"
    using assms by (auto simp: max_def min_def)
  have "jsSlice (- p) xs = drop (?n - ?k) xs"
    using assms k by (simp add: jsSlice_def Let_def)
  also have "\<dots> = rev (take ?k (rev xs))"
    by (simp add: take_rev)
  finally show ?thesis
    by (simp add: lastValues_def)
qed

text \<open>With a positive period the divisor of \<open>calculateMA\<close> is not zero.\<close>

lemma calculateMA_pos: "0 < p \<Longrightarrow> \<exists>v. calculateMA xs p = Inr v"
  by (cases "xs = []") (auto simp: calculateMA_def min_def)

lemma length_lastValues: "length (lastValues k xs) = min k (length xs)"
  by (simp add: lastValues_def)

text \<open>
  C7.  For every list of values and p \<open>p \<ge> 1\<close>, \<open>calculateMA\<close> returns a number (it
  never fails): \<open>0\<close> for the empty list, and otherwise the arithmetic mean of the last
  \<open>min p (length values)\<close> values, fewer than \<open>p\<close> values being averaged as they are.
\<close>

theorem C7_calculateMA_mean:
  assumes "1 \<le> p"
  shows "calculateMA values p =
           Inr (if values = [] then 0
                else arithmeticMean (lastValues (min (nat p) (length values)) values))"
proof (cases "values = []")
  case True
  then show ?thesis by (simp add: calculateMA_def)
next
  case False
  let ?k = "min (nat p) (length values)"
  have len: "0 < length values" using False by simp
  have m: "min p (int (length values)) = int ?k"
    using assms by (auto simp: min_def)
  have k0: "?k \<noteq> 0" using assms len by (simp add: min_def)
  have "calculateMA values p =
          Inr (foldl (+) 0 (jsSlice (- p) values) / real_of_int (int ?k))"
    using False k0 m by (simp add: calculateMA_def)
  also have "\<dots> = Inr (sum_list (lastValues ?k values) / real ?k)"
    using assms by (simp add: foldl_plus_sum_list jsSlice_neg_lastValues)
  finally show ?thesis
    using False by (simp add: arithmeticMean_def length_lastValues)
qed

theorem C7_calculateMA_mean_witness:
  "(1::int) \<le> 3
   \<and> calculateMA [1, 2, 3, 4] 3 = Inr 3
   \<and> calculateMA [4, 8] 20 = Inr 6
   \<and> calculateMA [] 20 = Inr 0"
proof -
  have h: "(1::int) \<le> 3" by simp
  have h20: "(1::int) \<le> 20" by simp
  have a: "calculateMA [1, 2, 3, 4] 3 = Inr 3"
    using C7_calculateMA_mean [OF h, of "[1, 2, 3, 4]"]
    by (simp add: arithmeticMean_def lastValues_def)
  have b: "calculateMA [4, 8] 20 = Inr 6"
    using C7_calculateMA_mean [OF h20, of "[4, 8]"]
    by (simp add: arithmeticMean_def lastValues_def)
  have c: "calculateMA [] 20 = Inr 0"
    using C7_calculateMA_mean [OF h20, of "[]"] by simp
  from h a b c show ?thesis by simp
qed

subsection \<open>Relative strength index\<close>

lemma rsiLoop_sums:
  "\<forall>i\<in>set is. i + 1 < length md \<Longrightarrow>
   rsiLoop md is (g, l) =
     Inr (g + (\<Sum>i\<leftarrow>is. max 0 (closeChange md i)), l + (\<Sum>i\<leftarrow>is. max 0 (- closeChange md i)))"
proof (induction "is" arbitrary: g l)
  case Nil
  then show ?case by simp
next
  case (Cons i rest)
  then show ?case
    by (simp add: closeChange_def max_def Let_def)
qed

lemma rsi_value_range:
  fixes g l :: real
  assumes "0 \<le> g" "0 \<le> l" "0 < q" "0 < a" "a' = (if l / q = 0 then a else l / q)"
  shows "0 \<le> (g / q) / a'" and "0 \<le> 100 - 100 / (1 + (g / q) / a')"
    and "100 - 100 / (1 + (g / q) / a') < 100"
proof -
  have a': "0 < a'" using assms by (auto simp: less_le)
  show rs: "0 \<le> (g / q) / a'" using assms a' by simp
  have one: "1 \<le> 1 + (g / q) / a'" using rs by simp
  then have "100 / (1 + (g / q) / a') \<le> 100"
    by (simp add: divide_le_eq)
  then show "0 \<le> 100 - 100 / (1 + (g / q) / a')" by simp
  have "0 < 100 / (1 + (g / q) / a')" using one by simp
  then show "100 - 100 / (1 + (g / q) / a') < 100" by simp
qed

lemma sum_list_upt_sum: "(\<Sum>i\<leftarrow>[a..<b]. f i) = (\<Sum>i = a..<b. (f i :: real))"
  by (simp add: interv_sum_list_conv_sum_set_nat)

lemma calculateRSI_unfold:
  assumes "\<not> int ci < p" "p \<noteq> 0" "rsiLoop md [nat (int ci - p) ..< ci] (0, 0) = Inr (g, l)"
    and "a' = (if l / real_of_int p = 0 then 0.0001 else l / real_of_int p)"
  shows "calculateRSI md ci p =
           (if 1 + (g / real_of_int p) / a' = 0 then Inl NonFinite
            else Inr (100 - 100 / (1 + (g / real_of_int p) / a')))"
  using assms(1,2) unfolding calculateRSI_def assms(3) assms(4)
  by (simp add: Let_def)

lemma calculateRSI_in_range:
  assumes "1 \<le> p" "p \<le> int atIndex" "atIndex < length series"
  shows "calculateRSI series atIndex p
           = Inr (100 - 100 / (1 + relativeStrength series atIndex (nat p)))"
    and "flooredLoss series atIndex (nat p) \<noteq> 0"
    and "1 + relativeStrength series atIndex (nat p) \<noteq> 0"
proof -
  let ?is = "[nat (int atIndex - p) ..< atIndex]"
  let ?G = "\<Sum>i = atIndex - nat p..<atIndex. max 0 (closeChange series i)"
  let ?L = "\<Sum>i = atIndex - nat p..<atIndex. max 0 (- closeChange series i)"
  have rng: "nat (int atIndex - p) = atIndex - nat p" using assms by simp
  have inb: "\<forall>i\<in>set ?is. i + 1 < length series" using assms by auto
  have loop: "rsiLoop series ?is (0, 0) = Inr (?G, ?L)"
    using rsiLoop_sums [OF inb, of 0 0] by (simp only: sum_list_upt_sum rng add_0)
  have rp: "real_of_int p = real (nat p)" using assms by simp
  have g0: "0 \<le> ?G" by (rule sum_nonneg) simp
  have l0: "0 \<le> ?L" by (rule sum_nonneg) simp
  have q: "0 < real (nat p)" using assms by simp
  have fl: "flooredLoss series atIndex (nat p) =
      (if ?L / real (nat p) = 0 then 0.0001 else ?L / real (nat p))"
    by (simp only: flooredLoss_def averageLoss_def)
  have rs: "relativeStrength series atIndex (nat p) = (?G / real (nat p)) / flooredLoss series atIndex (nat p)"
    by (simp only: relativeStrength_def averageGain_def)
  have rs0: "0 \<le> relativeStrength series atIndex (nat p)"
    unfolding rs using rsi_value_range(1) [OF g0 l0 q _ fl] by simp
  show "flooredLoss series atIndex (nat p) \<noteq> 0"
    using rsi_value_range(1) [OF g0 l0 q _ fl] l0 q unfolding fl by (simp split: if_splits)
  show nz: "1 + relativeStrength series atIndex (nat p) \<noteq> 0" using rs0 by simp
  have c1: "\<not> int atIndex < p" and c2: "p \<noteq> 0" using assms by simp_all
  have fl': "flooredLoss series atIndex (nat p) =
      (if ?L / real_of_int p = 0 then 0.0001 else ?L / real_of_int p)"
    unfolding fl rp by (rule refl)
  show "calculateRSI series atIndex p
           = Inr (100 - 100 / (1 + relativeStrength series atIndex (nat p)))"
    using calculateRSI_unfold [OF c1 c2 loop fl'] nz unfolding rs rp by simp
qed

text \<open>
  C8.  For every price series, index \<open>atIndex\<close> and period \<open>p\<close>: \<open>calculateRSI\<close>
  returns exactly \<open>50\<close> whenever \<open>atIndex < p\<close>; and for \<open>p \<ge> 1\<close> with at least \<open>p\<close>
  prior bars, \<open>atIndex\<close> being an index of the series, it returns
  \<open>100 - 100 / (1 + rs)\<close>, where \<open>rs\<close> is the average gain over the \<open>p\<close> bars preceding
  \<open>atIndex\<close> divided by the average loss over them, the average loss replaced by
  \<open>0.0001\<close> when it is zero; neither divisor is zero.
\<close>

theorem C8_calculateRSI:
  "(int atIndex < p \<longrightarrow> calculateRSI series atIndex p = Inr 50)
   \<and> (1 \<le> p \<and> p \<le> int atIndex \<and> atIndex < length series \<longrightarrow>
        calculateRSI series atIndex p
          = Inr (100 - 100 / (1 + relativeStrength series atIndex (nat p)))
        \<and> flooredLoss series atIndex (nat p) \<noteq> 0
        \<and> 1 + relativeStrength series atIndex (nat p) \<noteq> 0)"
proof (intro conjI impI)
  assume "int atIndex < p"
  then show "calculateRSI series atIndex p = Inr 50"
    by (simp add: calculateRSI_def)
next
  assume h: "1 \<le> p \<and> p \<le> int atIndex \<and> atIndex < length series"
  then show "calculateRSI series atIndex p
          = Inr (100 - 100 / (1 + relativeStrength series atIndex (nat p)))"
    using calculateRSI_in_range(1) by blast
next
  assume h: "1 \<le> p \<and> p \<le> int atIndex \<and> atIndex < length series"
  then show "flooredLoss series atIndex (nat p) \<noteq> 0"
    using calculateRSI_in_range(2) by blast
next
  assume h: "1 \<le> p \<and> p \<le> int atIndex \<and> atIndex < length series"
  then show "1 + relativeStrength series atIndex (nat p) \<noteq> 0"
    using calculateRSI_in_range(3) by blast
qed

lemma exampleSeries_strength: "relativeStrength exampleSeries 2 2 = 3"
  by (simp add: relativeStrength_def averageGain_def flooredLoss_def averageLoss_def
      closeChange_def exampleSeries_def exampleBar_def numeral_2_eq_2)

theorem C8_calculateRSI_witness:
  "int 1 < 14 \<and> calculateRSI exampleSeries 1 14 = Inr 50
   \<and> (1::int) \<le> 2 \<and> (2::int) \<le> int 2 \<and> 2 < length exampleSeries
   \<and> calculateRSI exampleSeries 2 2 = Inr 75"
  using C8_calculateRSI [of 1 14 exampleSeries] C8_calculateRSI [of 2 2 exampleSeries]
  by (simp add: exampleSeries_strength) (simp add: exampleSeries_def)

subsection \<open>Graph resolver\<close>

lemma entry_filter_types:
  "b \<in> set (filter (isEntryBlock graph) bs) \<Longrightarrow>
   blockType b = Some ''entry_condition'' \<or> blockType b = Some ''comparison''"
  by (auto simp: isEntryBlock_def split: if_splits)

lemma resolveEntryBlocks_cases:
  "b \<in> set (fst (resolveEntryBlocks graph bs)) \<Longrightarrow>
   b \<in> set (filter (isEntryBlock graph) bs)
   \<or> (filter (isEntryBlock graph) bs = [] \<and> isIndicatorOrPrice b)"
  by (auto simp: resolveEntryBlocks_def Let_def isIndicatorOrPrice_def dummyEntryBlock_def
      split: if_splits option.splits dest: find_Some_iff [THEN iffD1])

lemma exit_not_indicator:
  "b \<in> set (resolveExitBlocks graph bs) \<Longrightarrow> \<not> isIndicatorOrPrice b"
  by (auto simp: resolveExitBlocks_def isExitBlock_def isIndicatorOrPrice_def split: if_splits)

lemma exit_not_in_entry_filter:
  "b \<in> set (resolveExitBlocks graph bs) \<Longrightarrow> b \<notin> set (filter (isEntryBlock graph) bs)"
  by (auto simp: resolveExitBlocks_def isExitBlock_def isEntryBlock_def list_ex_iff
      split: if_splits)

lemma entry_exit_disjoint:
  "set (fst (resolveEntryBlocks graph bs)) \<inter> set (resolveExitBlocks graph bs) = {}"
  using resolveEntryBlocks_cases exit_not_indicator exit_not_in_entry_filter by blast

lemma terminal_comparison_entry:
  assumes "b \<in> set bs" "blockType b = Some ''comparison''" "isTerminal graph (blockId b)"
    "purpose b \<noteq> Some ''exit''"
  shows "b \<in> set (fst (resolveEntryBlocks graph bs))"
proof -
  have "b \<in> set (filter (isEntryBlock graph) bs)"
    using assms by (simp add: isEntryBlock_def)
  moreover from this have "filter (isEntryBlock graph) bs \<noteq> []"
    by (metis empty_iff empty_set)
  ultimately show ?thesis
    by (simp add: resolveEntryBlocks_def Let_def)
qed

text \<open>
  C9.  For every graph and block list, no block is both in the entry-candidate list
  (fallbacks included) and in the exit-candidate list; a terminal comparison block with
  neither purpose tag is an entry candidate and not an exit candidate; and a comparison
  block among the exit candidates is terminal, is not an entry candidate and is not
  tagged as serving an entry purpose.
\<close>

theorem C9_resolver_exclusive:
  "set (fst (resolveEntryBlocks graph bs)) \<inter> set (resolveExitBlocks graph bs) = {}
   \<and> (\<forall>b\<in>set bs. blockType b = Some ''comparison'' \<and> isTerminal graph (blockId b)
          \<and> purpose b \<noteq> Some ''entry'' \<and> purpose b \<noteq> Some ''exit''
        \<longrightarrow> b \<in> set (fst (resolveEntryBlocks graph bs))
            \<and> b \<notin> set (resolveExitBlocks graph bs))
   \<and> (\<forall>b\<in>set (resolveExitBlocks graph bs). blockType b = Some ''comparison''
        \<longrightarrow> isTerminal graph (blockId b)
            \<and> b \<notin> set (fst (resolveEntryBlocks graph bs))
            \<and> purpose b \<noteq> Some ''entry'')"
proof (intro conjI ballI impI)
  show "set (fst (resolveEntryBlocks graph bs)) \<inter> set (resolveExitBlocks graph bs) = {}"
    by (rule entry_exit_disjoint)
next
  fix b assume "b \<in> set bs" and h: "blockType b = Some ''comparison'' \<and> isTerminal graph (blockId b)
          \<and> purpose b \<noteq> Some ''entry'' \<and> purpose b \<noteq> Some ''exit''"
  then show e: "b \<in> set (fst (resolveEntryBlocks graph bs))"
    using terminal_comparison_entry by blast
  then show "b \<notin> set (resolveExitBlocks graph bs)"
    using entry_exit_disjoint by blast
next
  fix b assume "b \<in> set (resolveExitBlocks graph bs)" and "blockType b = Some ''comparison''"
  then show "isTerminal graph (blockId b)" and "purpose b \<noteq> Some ''entry''"
    by (auto simp: resolveExitBlocks_def isExitBlock_def split: if_splits)
next
  fix b assume "b \<in> set (resolveExitBlocks graph bs)"
  then show "b \<notin> set (fst (resolveEntryBlocks graph bs))"
    using entry_exit_disjoint by blast
qed

theorem C9_resolver_exclusive_witness:
  "plainBlock ''c1'' ''comparison'' \<in> set exampleComparisons
   \<and> plainBlock ''c1'' ''comparison'' \<in> set (fst (resolveEntryBlocks [] exampleComparisons))
   \<and> plainBlock ''c1'' ''comparison'' \<notin> set (resolveExitBlocks [] exampleComparisons)
   \<and> (plainBlock ''c2'' ''comparison'')\<lparr>purpose := Some ''exit''\<rparr>
         \<in> set (resolveExitBlocks [] exampleComparisons)
   \<and> (plainBlock ''c2'' ''comparison'')\<lparr>purpose := Some ''exit''\<rparr>
         \<notin> set (fst (resolveEntryBlocks [] exampleComparisons))"
proof -
  let ?c1 = "plainBlock ''c1'' ''comparison''"
  let ?c2 = "(plainBlock ''c2'' ''comparison'')\<lparr>purpose := Some ''exit''\<rparr>"
  have m: "?c1 \<in> set exampleComparisons"
    by (simp add: exampleComparisons_def)
  have h: "blockType ?c1 = Some ''comparison'' \<and> isTerminal [] (blockId ?c1)
           \<and> purpose ?c1 \<noteq> Some ''entry'' \<and> purpose ?c1 \<noteq> Some ''exit''"
    by (simp add: plainBlock_def isTerminal_def graphHas_def)
  have x: "?c2 \<in> set (resolveExitBlocks [] exampleComparisons)"
    by (simp add: resolveExitBlocks_def exampleComparisons_def isExitBlock_def isEntryBlock_def
        plainBlock_def isTerminal_def graphHas_def)
  have t: "blockType ?c2 = Some ''comparison''"
    by (simp add: plainBlock_def)
  from C9_resolver_exclusive [of "[]" exampleComparisons] m h x t show ?thesis
    by blast
qed

subsection \<open>Backtest simulator: the bar loop\<close>

lemma evaluateBlock_returns:
  "\<exists>v cache'. evaluateBlock (Suc stack) b ctx bbi graph cache = Inr (v, cache')"
proof (cases "blockId b = []")
  case True
  then show ?thesis by simp
next
  case idok: False
  show ?thesis
  proof (cases "blockType b")
    case None
    then show ?thesis using idok by simp
  next
    case (Some bt)
    show ?thesis
    proof (cases "bt = []")
      case True
      then show ?thesis using idok Some by simp
    next
      case False
      show ?thesis
      proof (cases "entries cache (blockId b, currentIndex ctx)")
        case hit: (Some cached)
        then show ?thesis using idok Some False by (simp add: cacheLookup_def)
      next
        case None
        then show ?thesis using idok Some False
          by (cases "evalKind (\<lambda>b c. evaluateBlock stack b ctx bbi graph c) bt b ctx bbi graph
                (cache\<lparr>lookups := lookups cache @ [(blockId b, currentIndex ctx)]\<rparr>)")
            (auto simp: cacheLookup_def)
      qed
    qed
  qed
qed

lemma entryLoop_cases:
  "entryLoop stack ctx bbi graph pf bs cache s = Inr s' \<Longrightarrow>
   s' = s \<or> buy (currentData ctx) (priceOf pf (currentData ctx)) s = Inr s'"
proof (induction bs arbitrary: cache)
  case Nil
  then show ?case by simp
next
  case (Cons b bs)
  then show ?case
    by (auto split: sum.splits if_splits)
qed

lemma exitLoop_cases:
  "exitLoop stack ctx bbi graph pf bs cache s = Inr s' \<Longrightarrow>
   s' = s \<or> s' = sell (currentData ctx) (priceOf pf (currentData ctx)) s"
proof (induction bs arbitrary: cache)
  case Nil
  then show ?case by simp
next
  case (Cons b bs)
  then show ?case
    by (auto split: sum.splits if_splits)
qed

lemma stepBar_cases:
  assumes "stepBar stack md pf bbi graph entryBlocks exitBlocks i s = Inr s'"
  shows "s' = s
         \<or> (position s = 0 \<and> buy (md ! i) (priceOf pf (md ! i)) s = Inr s')
         \<or> (0 < position s \<and> s' = sell (md ! i) (priceOf pf (md ! i)) s)"
proof -
  let ?ctx = "\<lparr>dataWindow = take (i + 1) md, currentData = md ! i, currentIndex = i,
                 marketData = md\<rparr>"
  consider (flat) "position s = 0" | (long) "0 < position s" | (neg) "position s < 0"
    by linarith
  then show ?thesis
  proof cases
    case flat
    then have "entryLoop stack ?ctx bbi graph pf entryBlocks emptyCache s = Inr s'"
      using assms by (simp add: stepBar_def Let_def)
    from entryLoop_cases [OF this] flat show ?thesis by auto
  next
    case long
    show ?thesis
    proof (cases "length exitBlocks > 0")
      case True
      then have "exitLoop stack ?ctx bbi graph pf exitBlocks emptyCache s = Inr s'"
        using assms long by (simp add: stepBar_def Let_def)
      from exitLoop_cases [OF this] long show ?thesis by auto
    next
      case False
      then show ?thesis
        using assms long by (auto simp: stepBar_def Let_def split: if_splits)
    qed
  next
    case neg
    then show ?thesis using assms by (simp add: stepBar_def Let_def)
  qed
qed

lemma entryLoop_returns:
  assumes "0 < stack" and "priceOf pf (currentData ctx) \<noteq> 0"
  shows "\<exists>s'. entryLoop stack ctx bbi graph pf bs cache s = Inr s'"
proof (induction bs arbitrary: cache)
  case Nil
  then show ?case by simp
next
  case (Cons b bs)
  obtain n where n: "stack = Suc n" using assms(1) by (cases stack) auto
  obtain v c' where e: "evaluateBlock stack b ctx bbi graph cache = Inr (v, c')"
    using evaluateBlock_returns [of n b ctx bbi graph cache] n by auto
  show ?case
  proof (cases "truthy v")
    case True
    then show ?thesis using e assms(2) by (simp add: buy_def)
  next
    case False
    then show ?thesis using e Cons.IH [of c'] by simp
  qed
qed

lemma exitLoop_returns:
  assumes "0 < stack"
  shows "\<exists>s'. exitLoop stack ctx bbi graph pf bs cache s = Inr s'"
proof (induction bs arbitrary: cache)
  case Nil
  then show ?case by simp
next
  case (Cons b bs)
  obtain n where n: "stack = Suc n" using assms(1) by (cases stack) auto
  obtain v c' where e: "evaluateBlock stack b ctx bbi graph cache = Inr (v, c')"
    using evaluateBlock_returns [of n b ctx bbi graph cache] n by auto
  show ?case
  proof (cases "truthy v")
    case True
    then show ?thesis using e by simp
  next
    case False
    then show ?thesis using e Cons.IH [of c'] by simp
  qed
qed

lemma stepBar_returns:
  assumes "0 < stack" and "priceOf pf (md ! i) \<noteq> 0"
  shows "\<exists>s'. stepBar stack md pf bbi graph entryBlocks exitBlocks i s = Inr s'"
proof -
  let ?ctx = "\<lparr>dataWindow = take (i + 1) md, currentData = md ! i, currentIndex = i,
                 marketData = md\<rparr>"
  have p: "priceOf pf (currentData ?ctx) \<noteq> 0" using assms(2) by simp
  consider (flat) "position s = 0" | (long) "0 < position s" | (neg) "position s < 0"
    by linarith
  then show ?thesis
  proof cases
    case flat
    then show ?thesis
      using entryLoop_returns [OF assms(1) p, of bbi graph entryBlocks emptyCache s]
      by (simp add: stepBar_def Let_def)
  next
    case long
    then show ?thesis
      using exitLoop_returns [OF assms(1), of ?ctx bbi graph pf exitBlocks emptyCache s]
      by (auto simp: stepBar_def Let_def)
  next
    case neg
    then show ?thesis by (simp add: stepBar_def Let_def)
  qed
qed

lemma runBars_returns:
  assumes "0 < stack" and "\<forall>i<length md. priceOf pf (md ! i) \<noteq> 0"
  shows "k \<le> length md \<Longrightarrow>
         \<exists>s'. runBars stack md pf bbi graph entryBlocks exitBlocks k s = Inr s'"
proof (induction k)
  case 0
  then show ?case by simp
next
  case (Suc k)
  then obtain s1 where "runBars stack md pf bbi graph entryBlocks exitBlocks k s = Inr s1"
    by auto
  moreover have "priceOf pf (md ! k) \<noteq> 0" using assms(2) Suc.prems by simp
  ultimately show ?case using stepBar_returns [OF assms(1)] by simp
qed

lemma finalPortfolio_returns:
  assumes "md \<noteq> []" and "0 < stack"
    and "\<forall>i<length md. priceOf (priceField opts) (md ! i) \<noteq> 0"
  shows "\<exists>s. finalPortfolio stack strategy opts md = Inr s"
proof -
  obtain s where "runBars stack md (priceField opts) (buildBlocksById (blocks strategy))
      (buildGraph (connections strategy))
      (fst (resolveEntryBlocks (buildGraph (connections strategy)) (blocks strategy)))
      (resolveExitBlocks (buildGraph (connections strategy)) (blocks strategy))
      (length md) (initialPortfolio opts) = Inr s"
    using runBars_returns [OF assms(2,3), of "length md"] by blast
  then show ?thesis using assms(1) by (simp add: finalPortfolio_def Let_def)
qed

lemma runBacktest_returns:
  assumes "md \<noteq> []" and "0 < stack"
    and "\<forall>i<length md. priceOf (priceField opts) (md ! i) \<noteq> 0"
    and "initialCapital opts \<noteq> 0"
  shows "\<exists>r. runBacktest stack strategy opts md = Inr r"
proof -
  obtain s where "finalPortfolio stack strategy opts md = Inr s"
    using finalPortfolio_returns [OF assms(1-3)] by blast
  then show ?thesis using assms(4) by (simp add: runBacktest_def)
qed

lemma finalPortfolio_run:
  assumes "finalPortfolio stack strategy opts md = Inr s"
  shows "\<exists>s1. runBars stack md (priceField opts) (buildBlocksById (blocks strategy))
                 (buildGraph (connections strategy))
                 (fst (resolveEntryBlocks (buildGraph (connections strategy)) (blocks strategy)))
                 (resolveExitBlocks (buildGraph (connections strategy)) (blocks strategy))
                 (length md) (initialPortfolio opts) = Inr s1
              \<and> s = finalExit md (priceField opts) s1 \<and> md \<noteq> []"
  using assms
  by (auto simp: finalPortfolio_def Let_def split: if_splits sum.splits)

lemma netPosition_snoc:
  "netPosition (ts @ [t]) = netPosition ts + (if action t = BUY then 1 else - 1)"
  by (cases "action t") (simp_all add: netPosition_def)

lemma ledgerBalanced_iff:
  "ledgerBalanced ts \<longleftrightarrow> (\<forall>k\<le>length ts. netPosition (take k ts) = 0 \<or> netPosition (take k ts) = 1)"
proof -
  have "set [0 ..< Suc (length ts)] = {k. k \<le> length ts}" by auto
  then show ?thesis
    unfolding ledgerBalanced_def list_all_iff by blast
qed

lemma ledgerBalanced_snoc:
  assumes "ledgerBalanced ts" "netPosition (ts @ [t]) = 0 \<or> netPosition (ts @ [t]) = 1"
  shows "ledgerBalanced (ts @ [t])"
  unfolding ledgerBalanced_iff
proof (intro allI impI)
  fix k assume k: "k \<le> length (ts @ [t])"
  show "netPosition (take k (ts @ [t])) = 0 \<or> netPosition (take k (ts @ [t])) = 1"
  proof (cases "k \<le> length ts")
    case True
    then show ?thesis using assms(1) by (simp add: ledgerBalanced_iff)
  next
    case False
    with k have "take k (ts @ [t]) = ts @ [t]" by simp
    then show ?thesis using assms(2) by simp
  qed
qed

lemma ledgerBalanced_Nil: "ledgerBalanced []"
  by (simp add: ledgerBalanced_def netPosition_def)

lemma singlePosition_buy:
  assumes "singlePosition s" "position s = 0" "0 < tradePrice" "buy bar tradePrice s = Inr s'"
  shows "singlePosition s'"
proof -
  have s': "s' = \<lparr>capital = 0, position = capital s / tradePrice, buyPrice = tradePrice,
                trades = trades s @ [\<lparr>tradeDate = date bar, action = BUY, price = tradePrice\<rparr>]\<rparr>"
    using assms(3,4) by (simp add: buy_def)
  have c: "0 < capital s" and n: "netPosition (trades s) = 0" and l: "ledgerBalanced (trades s)"
    using assms(1,2) by (auto simp: singlePosition_def)
  have p: "0 < capital s / tradePrice" using c assms(3) by simp
  have n': "netPosition (trades s') = 1" unfolding s' using n by (simp add: netPosition_snoc)
  have "ledgerBalanced (trades s')"
    using ledgerBalanced_snoc [OF l] n' unfolding s' by simp
  then show ?thesis using p n' by (simp add: singlePosition_def s')
qed

lemma singlePosition_sell:
  assumes "singlePosition s" "0 < position s" "0 < tradePrice"
  shows "singlePosition (sell bar tradePrice s)"
proof -
  have n: "netPosition (trades s) = 1" and l: "ledgerBalanced (trades s)"
    using assms(1,2) by (auto simp: singlePosition_def)
  have n': "netPosition (trades (sell bar tradePrice s)) = 0"
    using n by (simp add: sell_def netPosition_snoc)
  have "ledgerBalanced (trades (sell bar tradePrice s))"
    using ledgerBalanced_snoc [OF l, of "\<lparr>tradeDate = date bar, action = SELL, price = tradePrice\<rparr>"] n'
    by (simp add: sell_def)
  then show ?thesis using n' assms(2,3) by (simp add: singlePosition_def sell_def)
qed

lemma singlePosition_step:
  assumes "singlePosition s" "0 < priceOf pf (md ! i)"
    "stepBar stack md pf bbi graph entryBlocks exitBlocks i s = Inr s'"
  shows "singlePosition s'"
  using stepBar_cases [OF assms(3)] assms(1,2) singlePosition_buy singlePosition_sell
  by blast

lemma singlePosition_runBars:
  assumes "singlePosition s0" "\<forall>i<length md. 0 < priceOf pf (md ! i)"
  shows "k \<le> length md \<Longrightarrow>
         runBars stack md pf bbi graph entryBlocks exitBlocks k s0 = Inr s \<Longrightarrow>
         singlePosition s"
proof (induction k arbitrary: s)
  case 0
  then show ?case using assms(1) by simp
next
  case (Suc k)
  from Suc.prems(2) obtain s1 where
    r: "runBars stack md pf bbi graph entryBlocks exitBlocks k s0 = Inr s1" and
    st: "stepBar stack md pf bbi graph entryBlocks exitBlocks k s1 = Inr s"
    by (auto split: sum.splits)
  have "singlePosition s1" using Suc.IH [OF _ r] Suc.prems(1) by simp
  moreover have "0 < priceOf pf (md ! k)" using assms(2) Suc.prems(1) by simp
  ultimately show ?case using singlePosition_step st by blast
qed

lemma singlePosition_finalExit:
  assumes "singlePosition s" "md \<noteq> []" "\<forall>i<length md. 0 < priceOf pf (md ! i)"
  shows "ledgerBalanced (trades (finalExit md pf s))"
proof (cases "0 < position s")
  case True
  have "0 < priceOf pf (md ! (length md - 1))" using assms(2,3) by simp
  from singlePosition_sell [OF assms(1) True this]
  show ?thesis using True by (simp add: finalExit_def Let_def singlePosition_def)
next
  case False
  then show ?thesis using assms(1) by (simp add: finalExit_def singlePosition_def)
qed

lemma nonneg_step:
  assumes "0 \<le> capital s \<and> 0 \<le> position s" "0 < priceOf pf (md ! i)"
    "stepBar stack md pf bbi graph entryBlocks exitBlocks i s = Inr s'"
  shows "0 \<le> capital s' \<and> 0 \<le> position s'"
  using stepBar_cases [OF assms(3)] assms(1,2)
  by (auto simp: buy_def sell_def split: if_splits)

lemma nonneg_runBars:
  assumes "0 \<le> capital s0 \<and> 0 \<le> position s0" "\<forall>i<length md. 0 < priceOf pf (md ! i)"
  shows "k \<le> length md \<Longrightarrow>
         runBars stack md pf bbi graph entryBlocks exitBlocks k s0 = Inr s \<Longrightarrow>
         0 \<le> capital s \<and> 0 \<le> position s"
proof (induction k arbitrary: s)
  case 0
  then show ?case using assms(1) by simp
next
  case (Suc k)
  from Suc.prems(2) obtain s1 where
    r: "runBars stack md pf bbi graph entryBlocks exitBlocks k s0 = Inr s1" and
    st: "stepBar stack md pf bbi graph entryBlocks exitBlocks k s1 = Inr s"
    by (auto split: sum.splits)
  have "0 \<le> capital s1 \<and> 0 \<le> position s1" using Suc.IH [OF _ r] Suc.prems(1) by simp
  moreover have "0 < priceOf pf (md ! k)" using assms(2) Suc.prems(1) by simp
  ultimately show ?case using nonneg_step st by blast
qed

lemma finalExit_flat: "0 \<le> position s \<Longrightarrow> position (finalExit md pf s) = 0"
  by (simp add: finalExit_def sell_def Let_def)

lemma finalExit_sells:
  "md \<noteq> [] \<Longrightarrow> 0 < position s \<Longrightarrow>
   trades (finalExit md pf s)
     = trades s @ [\<lparr>tradeDate = date (last md), action = SELL, price = priceOf pf (last md)\<rparr>]"
  by (simp add: finalExit_def sell_def Let_def last_conv_nth)

lemma stepBar_one_trade:
  assumes "stepBar stack md pf bbi graph entryBlocks exitBlocks i s = Inr s'"
  shows "trades s' = trades s \<or> (\<exists>t. trades s' = trades s @ [t])"
  using stepBar_cases [OF assms]
  by (auto simp: buy_def sell_def split: if_splits)

lemma singlePosition_initial:
  "0 < initialCapital opts \<Longrightarrow> singlePosition (initialPortfolio opts)"
  by (simp add: singlePosition_def initialPortfolio_def ledgerBalanced_Nil netPosition_def)

subsection \<open>Backtest simulator: terminal flatness and the single position\<close>

text \<open>The definitions unfolded when the simulator is run on an example.\<close>

lemmas example_run_defs =
  finalPortfolio_def emptyStrategy_def exampleOptions_def exampleSeries_def exampleBar_def
  buildBlocksById_def buildGraph_def resolveEntryBlocks_def resolveExitBlocks_def
  priceField_def initialPortfolio_def stepBar_def dummyEntryBlock_def emptyCache_def
  cacheLookup_def cacheSet_def evalKind_def evalPrice_def buy_def sell_def finalExit_def

lemma exampleSeries_positive:
  "\<forall>i<length exampleSeries. 0 < priceOf (priceField exampleOptions) (exampleSeries ! i)"
  by (simp add: exampleSeries_def exampleBar_def priceField_def exampleOptions_def
      less_Suc_eq numeral_3_eq_3 all_conj_distrib)

lemma exampleSeries_nonzero:
  "\<forall>i<length exampleSeries. priceOf (priceField exampleOptions) (exampleSeries ! i) \<noteq> 0"
  using exampleSeries_positive by fastforce

lemma example_bars:
  "runBars 1 exampleSeries (priceField exampleOptions) Map.empty [] [dummyEntryBlock] []
     (length exampleSeries) (initialPortfolio exampleOptions) = Inr exampleOpenPortfolio"
  by (simp add: example_run_defs numeral_3_eq_3 exampleOpenPortfolio_def)

lemma example_final:
  "finalPortfolio 1 emptyStrategy exampleOptions exampleSeries = Inr exampleFinalPortfolio"
  by (simp add: example_run_defs numeral_3_eq_3 exampleFinalPortfolio_def)

lemma example_step:
  "stepBar 1 exampleSeries (priceField exampleOptions) Map.empty [] [dummyEntryBlock] [] 0
     (initialPortfolio exampleOptions)
   = Inr \<lparr>capital = 0, position = 100, buyPrice = 100,
          trades = [\<lparr>tradeDate = ''2024-01-01'', action = BUY, price = 100\<rparr>]\<rparr>"
  by (simp add: example_run_defs)

text \<open>
  The claim of C1 as stated fails on a series with a negative price: the entry buys a
  negative number of units, which neither \<open>position === 0\<close> nor \<open>position > 0\<close> matches
  afterwards, so the final exit leaves the position as it is.
\<close>

theorem C1_counterexample:
  "finalPortfolio 1 emptyStrategy exampleOptions negativeSeries =
     Inr \<lparr>capital = 0, position = - 2000, buyPrice = - 5,
          trades = [\<lparr>tradeDate = ''2024-01-01'', action = BUY, price = - 5\<rparr>]\<rparr>"
  by (simp add: example_run_defs negativeSeries_def)

text \<open>
  C1 (amended).  For every strategy graph and every non-empty price series whose selected
  price field is positive at every bar, with a non-negative initial capital: when
  \<open>runBacktest\<close> has processed the last bar and made its final exit, the position is exactly
  \<open>0\<close>; if a position is open after the last bar's iteration, the final exit appends a Sell
  trade dated on the last bar and priced at its selected price field as the last entry of
  the ledger; and the run does reach that point, for every graph, given room for one
  \<open>evaluateBlock\<close> frame on the call stack.
\<close>

theorem C1_terminal_flatness:
  assumes "md \<noteq> []" and "0 \<le> initialCapital opts"
    and "\<forall>i<length md. 0 < priceOf (priceField opts) (md ! i)"
  shows "(\<forall>s. finalPortfolio stack strategy opts md = Inr s \<longrightarrow> position s = 0)
       \<and> (\<forall>s. runBars stack md (priceField opts) blocksById graph entryBlocks exitBlocks
                  (length md) (initialPortfolio opts) = Inr s
              \<longrightarrow> position (finalExit md (priceField opts) s) = 0
                 \<and> (0 < position s \<longrightarrow>
                      trades (finalExit md (priceField opts) s)
                        = trades s @ [\<lparr>tradeDate = date (last md), action = SELL,
                                         price = priceOf (priceField opts) (last md)\<rparr>]))
       \<and> (0 < stack \<longrightarrow> (\<exists>s. finalPortfolio stack strategy opts md = Inr s))"
proof (intro conjI allI impI)
  have init: "0 \<le> capital (initialPortfolio opts) \<and> 0 \<le> position (initialPortfolio opts)"
    using assms(2) by (simp add: initialPortfolio_def)
  {
    fix s bbi g en ex
    assume "runBars stack md (priceField opts) bbi g en ex (length md) (initialPortfolio opts)
              = Inr s"
    from nonneg_runBars [OF init assms(3) _ this]
    have "position (finalExit md (priceField opts) s) = 0"
      by (simp add: finalExit_flat)
  } note flat = this
  {
    fix s assume "finalPortfolio stack strategy opts md = Inr s"
    from finalPortfolio_run [OF this] flat show "position s = 0" by blast
  }
  {
    fix s
    assume r: "runBars stack md (priceField opts) blocksById graph entryBlocks exitBlocks
                  (length md) (initialPortfolio opts) = Inr s"
    from flat [OF r] show "position (finalExit md (priceField opts) s) = 0" .
    assume "0 < position s"
    then show "trades (finalExit md (priceField opts) s)
                 = trades s @ [\<lparr>tradeDate = date (last md), action = SELL,
                                  price = priceOf (priceField opts) (last md)\<rparr>]"
      using assms(1) by (rule finalExit_sells [rotated])
  }
  {
    assume h: "0 < stack"
    have nz: "\<forall>i<length md. priceOf (priceField opts) (md ! i) \<noteq> 0"
      using assms(3) by fastforce
    from finalPortfolio_returns [OF assms(1) h nz]
    show "\<exists>s. finalPortfolio stack strategy opts md = Inr s" .
  }
qed

theorem C1_terminal_flatness_witness:
  "finalPortfolio 1 emptyStrategy exampleOptions exampleSeries = Inr exampleFinalPortfolio
   \<and> position exampleFinalPortfolio = 0
   \<and> position (finalExit exampleSeries (priceField exampleOptions) exampleOpenPortfolio) = 0
   \<and> 0 < position exampleOpenPortfolio
   \<and> trades (finalExit exampleSeries (priceField exampleOptions) exampleOpenPortfolio)
       = trades exampleOpenPortfolio
         @ [\<lparr>tradeDate = date (last exampleSeries), action = SELL,
              price = priceOf (priceField exampleOptions) (last exampleSeries)\<rparr>]
   \<and> (\<exists>s. finalPortfolio 1 emptyStrategy exampleOptions exampleSeries = Inr s)"
proof -
  have ne: "exampleSeries \<noteq> []" by (simp add: exampleSeries_def)
  have cap: "0 \<le> initialCapital exampleOptions" by (simp add: exampleOptions_def)
  have op: "0 < position exampleOpenPortfolio" by (simp add: exampleOpenPortfolio_def)
  have st: "0 < (1::nat)" by simp
  from C1_terminal_flatness [OF ne cap exampleSeries_positive, of 1 emptyStrategy Map.empty "[]"
      "[dummyEntryBlock]" "[]"]
    example_final example_bars op st
  show ?thesis by blast
qed

text \<open>
  The claim of C2 as stated fails for the ledger of a run: an entry on the last bar is
  followed by the final exit, so the ledger holds a Buy and a Sell on the same bar.
\<close>

theorem C2_counterexample:
  "finalPortfolio 1 emptyStrategy exampleOptions exampleSeries = Inr exampleFinalPortfolio
   \<and> tradesOnBar (exampleSeries ! 2) (trades exampleFinalPortfolio)
       = [\<lparr>tradeDate = ''2024-01-03'', action = BUY, price = 120\<rparr>,
          \<lparr>tradeDate = ''2024-01-03'', action = SELL, price = 120\<rparr>]"
  using example_final
  by (simp add: tradesOnBar_def exampleFinalPortfolio_def exampleSeries_def exampleBar_def)

lemma finalExit_one_trade:
  "trades (finalExit md pf s) = trades s
   \<or> trades (finalExit md pf s)
        = trades s @ [\<lparr>tradeDate = date (md ! (length md - 1)), action = SELL,
                         price = priceOf pf (md ! (length md - 1))\<rparr>]"
  by (simp add: finalExit_def sell_def Let_def)

text \<open>
  C2 (amended).  Given a positive initial capital and positive prices of the selected
  field, for every strategy graph: after any number of bar iterations exactly one of
  \<open>capital > 0\<close> and \<open>position > 0\<close> holds; each iteration of the bar loop appends at most
  one trade to the ledger, and the final exit after the loop appends at most one more, a
  Sell dated on the last bar (also when that bar's iteration has bought); at every prefix
  of the ledger, between iterations and in the final ledger, the number of Buy trades
  minus the number of Sell trades is 0 or 1; and every iteration completes, given room
  for one \<open>evaluateBlock\<close> frame on the call stack.
\<close>

theorem C2_single_position:
  assumes "0 < initialCapital opts"
    and "\<forall>i<length md. 0 < priceOf (priceField opts) (md ! i)"
  shows "(\<forall>k s. k \<le> length md
            \<and> runBars stack md (priceField opts) blocksById graph entryBlocks exitBlocks k
                (initialPortfolio opts) = Inr s
          \<longrightarrow> ((0 < capital s) \<noteq> (0 < position s)) \<and> ledgerBalanced (trades s))
       \<and> (\<forall>i s s'. stepBar stack md (priceField opts) blocksById graph entryBlocks exitBlocks i s
                      = Inr s'
          \<longrightarrow> trades s' = trades s \<or> (\<exists>t. trades s' = trades s @ [t]))
       \<and> (\<forall>s. trades (finalExit md (priceField opts) s) = trades s
              \<or> trades (finalExit md (priceField opts) s)
                   = trades s @ [\<lparr>tradeDate = date (md ! (length md - 1)), action = SELL,
                                    price = priceOf (priceField opts) (md ! (length md - 1))\<rparr>])
       \<and> (\<forall>s. finalPortfolio stack strategy opts md = Inr s \<longrightarrow> ledgerBalanced (trades s))
       \<and> (0 < stack \<longrightarrow>
            (\<forall>k\<le>length md. \<exists>s. runBars stack md (priceField opts) blocksById graph
                                  entryBlocks exitBlocks k (initialPortfolio opts) = Inr s))"
proof (intro conjI allI impI)
  note init = singlePosition_initial [OF assms(1)]
  {
    fix k s
    assume h: "k \<le> length md
            \<and> runBars stack md (priceField opts) blocksById graph entryBlocks exitBlocks k
                (initialPortfolio opts) = Inr s"
    then have sp: "singlePosition s"
      using singlePosition_runBars [OF init assms(2)] by blast
    then show "(0 < capital s) \<noteq> (0 < position s)"
      by (auto simp: singlePosition_def)
    from sp show "ledgerBalanced (trades s)"
      by (simp add: singlePosition_def)
  }
  {
    fix i s s'
    assume "stepBar stack md (priceField opts) blocksById graph entryBlocks exitBlocks i s
                      = Inr s'"
    then show "trades s' = trades s \<or> (\<exists>t. trades s' = trades s @ [t])"
      by (rule stepBar_one_trade)
  }
  {
    fix s
    show "trades (finalExit md (priceField opts) s) = trades s
              \<or> trades (finalExit md (priceField opts) s)
                   = trades s @ [\<lparr>tradeDate = date (md ! (length md - 1)), action = SELL,
                                    price = priceOf (priceField opts) (md ! (length md - 1))\<rparr>]"
      by (rule finalExit_one_trade)
  }
  {
    fix s assume "finalPortfolio stack strategy opts md = Inr s"
    from finalPortfolio_run [OF this] obtain s1 where
      r: "runBars stack md (priceField opts) (buildBlocksById (blocks strategy))
                 (buildGraph (connections strategy))
                 (fst (resolveEntryBlocks (buildGraph (connections strategy)) (blocks strategy)))
                 (resolveExitBlocks (buildGraph (connections strategy)) (blocks strategy))
                 (length md) (initialPortfolio opts) = Inr s1"
      and s: "s = finalExit md (priceField opts) s1" and ne: "md \<noteq> []" by blast
    have "singlePosition s1"
      using singlePosition_runBars [OF init assms(2) _ r] by simp
    from singlePosition_finalExit [OF this ne assms(2)] s
    show "ledgerBalanced (trades s)" by simp
  }
  {
    fix k assume st: "0 < stack" and k: "k \<le> length md"
    have nz: "\<forall>i<length md. priceOf (priceField opts) (md ! i) \<noteq> 0"
      using assms(2) by fastforce
    from runBars_returns [OF st nz k]
    show "\<exists>s. runBars stack md (priceField opts) blocksById graph
                                  entryBlocks exitBlocks k (initialPortfolio opts) = Inr s" .
  }
qed

theorem C2_single_position_witness:
  "runBars 1 exampleSeries (priceField exampleOptions) Map.empty [] [dummyEntryBlock] []
     (length exampleSeries) (initialPortfolio exampleOptions) = Inr exampleOpenPortfolio
   \<and> ((0 < capital exampleOpenPortfolio) \<noteq> (0 < position exampleOpenPortfolio))
   \<and> ledgerBalanced (trades exampleOpenPortfolio)
   \<and> ledgerBalanced (trades exampleFinalPortfolio)
   \<and> (trades \<lparr>capital = 0, position = 100, buyPrice = 100,
                trades = [\<lparr>tradeDate = ''2024-01-01'', action = BUY, price = 100\<rparr>]\<rparr>
        = trades (initialPortfolio exampleOptions)
      \<or> (\<exists>t. trades \<lparr>capital = 0, position = 100, buyPrice = 100,
                trades = [\<lparr>tradeDate = ''2024-01-01'', action = BUY, price = 100\<rparr>]\<rparr>
               = trades (initialPortfolio exampleOptions) @ [t]))
   \<and> (\<exists>s. runBars 1 exampleSeries (priceField exampleOptions) Map.empty [] [dummyEntryBlock] []
            (length exampleSeries) (initialPortfolio exampleOptions) = Inr s)"
proof -
  have cap: "0 < initialCapital exampleOptions" by (simp add: exampleOptions_def)
  have k: "length exampleSeries \<le> length exampleSeries" by simp
  have st: "0 < (1::nat)" by simp
  from C2_single_position [OF cap exampleSeries_positive, of 1 Map.empty "[]" "[dummyEntryBlock]"
      "[]" emptyStrategy]
    example_bars example_final example_step k st
  show ?thesis by blast
qed

subsection \<open>Structural validation and warnings\<close>

lemma crossover_graph:
  "buildGraph (connections crossoverStrategy) =
     [(''fast'', [\<lparr>source = ''fast'', target = ''cross'', sourceHandle = None, targetHandle = Some ''input1''\<rparr>]),
      (''slow'', [\<lparr>source = ''slow'', target = ''cross'', sourceHandle = None, targetHandle = Some ''input2''\<rparr>]),
      (''ghost'', [\<lparr>source = ''ghost'', target = ''cross'', sourceHandle = None, targetHandle = Some ''input1''\<rparr>])]"
  by (simp add: buildGraph_def crossoverStrategy_def graphPush_def graphHas_def)

lemma crossover_blocksById:
  "buildBlocksById (blocks crossoverStrategy) =
     [''fast'' \<mapsto> fastMA, ''slow'' \<mapsto> slowMA, ''cross'' \<mapsto> crossBlock]"
  by (simp add: buildBlocksById_def crossoverStrategy_def fastMA_def slowMA_def crossBlock_def
      plainBlock_def)

lemma crossover_run:
  "runBacktest 2 crossoverStrategy exampleOptions exampleSeries = Inr crossoverResult"
  unfolding runBacktest_def finalPortfolio_def crossover_graph crossover_blocksById
  by (simp add: crossoverStrategy_def resolveEntryBlocks_def resolveExitBlocks_def isEntryBlock_def
      isExitBlock_def isTerminal_def graphHas_def graphGet_def
      exampleOptions_def exampleSeries_def exampleBar_def
      priceField_def initialPortfolio_def stepBar_def emptyCache_def
      cacheLookup_def cacheSet_def evalKind_def evalComparison_def scanInputs_def inputStep_def
      evalMovingAverage_def calculateMA_def jsSlice_def compareValues_def
      fastMA_def slowMA_def crossBlock_def plainBlock_def
      buy_def sell_def finalExit_def numeral_3_eq_3 numeral_2_eq_2 crossoverResult_def)

lemma runBacktest_not_simulated:
  "runBacktest stack strategy opts md = Inr r \<Longrightarrow> usingSimulatedData r = False"
  by (auto simp: runBacktest_def split: sum.splits if_splits)

text \<open>
  The claim of C3 as stated fails: the crossover strategy has a connection whose source id
  \<open>ghost\<close> is no block, and the backtest simulates the bars and returns trades.
\<close>

theorem C3_counterexample:
  "source (connections crossoverStrategy ! 2) = ''ghost''
   \<and> buildBlocksById (blocks crossoverStrategy) ''ghost'' = None
   \<and> runBacktest 2 crossoverStrategy exampleOptions exampleSeries = Inr crossoverResult"
  using crossover_run
  by (simp add: crossover_blocksById) (simp add: crossoverStrategy_def)

text \<open>
  C3 (amended).  A strategy graph containing a connection whose source or target id does
  not refer to an existing block is not rejected.  For every such graph, over a non-empty
  price series whose selected price field is non-zero at every bar, with a non-zero
  initial capital and room for one \<open>evaluateBlock\<close> frame on the call stack, the backtest
  simulates the bars and returns a result.  The evaluator skips a connection whose block
  lookup fails: the loop of a condition block goes on to the next connection when the
  target id is no block, and the input scan of a comparison leaves both operands and the
  cache as they are when the source id is no block.
\<close>

theorem C3_dangling_connection_ignored:
  assumes "conn \<in> set (connections strategy)"
    and "buildBlocksById (blocks strategy) (source conn) = None
         \<or> buildBlocksById (blocks strategy) (target conn) = None"
    and "md \<noteq> []"
    and "0 < stack"
    and "\<forall>i<length md. priceOf (priceField opts) (md ! i) \<noteq> 0"
    and "initialCapital opts \<noteq> 0"
  shows "(\<exists>r. runBacktest stack strategy opts md = Inr r)
       \<and> (buildBlocksById (blocks strategy) (target conn) = None \<longrightarrow>
            conditionLoop ev (buildBlocksById (blocks strategy)) (conn # rest) cache
              = conditionLoop ev (buildBlocksById (blocks strategy)) rest cache)
       \<and> (buildBlocksById (blocks strategy) (source conn) = None \<longrightarrow>
            inputStep ev (buildBlocksById (blocks strategy)) bid (source conn) conn st = Inr st)"
  using runBacktest_returns [OF assms(3-6)] by (simp add: inputStep_def)

theorem C3_dangling_connection_ignored_witness:
  "(\<exists>r. runBacktest 2 crossoverStrategy exampleOptions exampleSeries = Inr r)
   \<and> inputStep (\<lambda>b c. Inr (BoolVal True, c)) (buildBlocksById (blocks crossoverStrategy))
        ''cross'' ''ghost''
        \<lparr>source = ''ghost'', target = ''cross'', sourceHandle = None,
         targetHandle = Some ''input1''\<rparr> ((None, None), emptyCache)
       = Inr ((None, None), emptyCache)"
proof -
  let ?conn = "\<lparr>source = ''ghost'', target = ''cross'', sourceHandle = None,
                targetHandle = Some ''input1''\<rparr>"
  have c: "?conn \<in> set (connections crossoverStrategy)"
    by (simp add: crossoverStrategy_def)
  have s: "buildBlocksById (blocks crossoverStrategy) (source ?conn) = None"
    by (simp add: crossover_blocksById)
  then have d: "buildBlocksById (blocks crossoverStrategy) (source ?conn) = None
           \<or> buildBlocksById (blocks crossoverStrategy) (target ?conn) = None" ..
  have ne: "exampleSeries \<noteq> []" by (simp add: exampleSeries_def)
  have st: "0 < (2::nat)" by simp
  have cap: "initialCapital exampleOptions \<noteq> 0" by (simp add: exampleOptions_def)
  have src: "source ?conn = ''ghost''" by simp
  from C3_dangling_connection_ignored [OF c d ne st exampleSeries_nonzero cap,
      of "\<lambda>b c. Inr (BoolVal True, c)" "[]" emptyCache "''cross''" "((None, None), emptyCache)"] s
  show ?thesis unfolding src by blast
qed

text \<open>
  The claim of C4 as stated fails: the object \<open>runBacktest\<close> returns has the fields
  \<open>trades\<close>, \<open>finalCapital\<close>, \<open>totalReturn\<close> and \<open>usingSimulatedData\<close> and no warning
  strings, and the \<open>warnings\<close> list the controller adds to its response is empty.  Here for
  the strategy with zero blocks.
\<close>

theorem C4_counterexample:
  "runBacktest 1 emptyStrategy exampleOptions exampleSeries = Inr emptyStrategyResult
   \<and> responseWarnings emptyStrategyResult = []"
  using example_final
  by (simp add: runBacktest_def emptyStrategyResult_def exampleFinalPortfolio_def
      exampleOptions_def responseWarnings_def)

text \<open>
  C4 (amended).  The backtest result returned to the caller carries no warning strings:
  \<open>usingSimulatedData\<close> is always false, so the warnings list of the response is empty.
  For a strategy graph with zero blocks the resolver synthesizes the default entry block
  and no exit block, and the notice about the missing blocks is written with
  \<open>console.log\<close> only; over a non-empty series with non-zero prices and capital the run
  returns a result.
\<close>

theorem C4_no_warnings_in_result:
  "(runBacktest stack strategy opts md = Inr r
      \<longrightarrow> usingSimulatedData r = False \<and> responseWarnings r = [])
   \<and> (blocks strategy = []
      \<longrightarrow> resolveEntryBlocks graph (blocks strategy)
            = ([dummyEntryBlock],
               [''No explicit entry blocks found, looking for indicators or price blocks to use'',
                ''No suitable entry blocks found, will use default entry strategy''])
          \<and> resolveExitBlocks graph (blocks strategy) = [])
   \<and> (blocks strategy = [] \<and> md \<noteq> [] \<and> 0 < stack
        \<and> (\<forall>i<length md. priceOf (priceField opts) (md ! i) \<noteq> 0) \<and> initialCapital opts \<noteq> 0
      \<longrightarrow> (\<exists>r. runBacktest stack strategy opts md = Inr r))"
proof (intro conjI impI)
  assume "runBacktest stack strategy opts md = Inr r"
  from runBacktest_not_simulated [OF this]
  show "usingSimulatedData r = False" and "responseWarnings r = []"
    by (simp_all add: responseWarnings_def)
next
  assume "blocks strategy = []"
  then show "resolveEntryBlocks graph (blocks strategy)
            = ([dummyEntryBlock],
               [''No explicit entry blocks found, looking for indicators or price blocks to use'',
                ''No suitable entry blocks found, will use default entry strategy''])"
    and "resolveExitBlocks graph (blocks strategy) = []"
    by (simp_all add: resolveEntryBlocks_def resolveExitBlocks_def)
next
  assume h: "blocks strategy = [] \<and> md \<noteq> [] \<and> 0 < stack
        \<and> (\<forall>i<length md. priceOf (priceField opts) (md ! i) \<noteq> 0) \<and> initialCapital opts \<noteq> 0"
  then show "\<exists>r. runBacktest stack strategy opts md = Inr r"
    using runBacktest_returns [of md stack opts strategy] by blast
qed

theorem C4_no_warnings_in_result_witness:
  "runBacktest 1 emptyStrategy exampleOptions exampleSeries = Inr emptyStrategyResult
   \<and> usingSimulatedData emptyStrategyResult = False
   \<and> responseWarnings emptyStrategyResult = []
   \<and> resolveEntryBlocks [] (blocks emptyStrategy)
        = ([dummyEntryBlock],
           [''No explicit entry blocks found, looking for indicators or price blocks to use'',
            ''No suitable entry blocks found, will use default entry strategy''])
   \<and> resolveExitBlocks [] (blocks emptyStrategy) = []
   \<and> (\<exists>r. runBacktest 1 emptyStrategy exampleOptions exampleSeries = Inr r)"
proof -
  have run: "runBacktest 1 emptyStrategy exampleOptions exampleSeries = Inr emptyStrategyResult"
    using example_final
    by (simp add: runBacktest_def emptyStrategyResult_def exampleFinalPortfolio_def
        exampleOptions_def)
  have e: "blocks emptyStrategy = []" by (simp add: emptyStrategy_def)
  have ne: "exampleSeries \<noteq> []" by (simp add: exampleSeries_def)
  have cap: "initialCapital exampleOptions \<noteq> 0" by (simp add: exampleOptions_def)
  have f: "0 < (1::nat)" by simp
  from C4_no_warnings_in_result [of 1 emptyStrategy exampleOptions exampleSeries
      emptyStrategyResult "[]"] run e ne cap f exampleSeries_nonzero
  show ?thesis by blast
qed

subsection \<open>Evaluation engine: cycles and the call stack\<close>


















subsection \<open>Memoization\<close>



























end
